theory Spec2Isabelle
  imports Complex_Main "HOL-Library.Char_ord" "HOL-Library.List_Lexorder"
begin

section \<open>Numbers\<close>

text \<open>
  The program computes with ECMAScript numbers, which are IEEE 754 doubles. The three
  non-finite values are kept, since the program produces them from finite inputs
  (\<open>0 / 0\<close>, \<open>x / 0\<close>, \<open>Math.log(0)\<close>) and they decide comparisons: every comparison
  with \<open>NaN\<close> is false. A division by zero takes the zero as \<open>+0\<close>.

  The operations \<open>+\<close>, \<open>-\<close>, \<open>*\<close>, \<open>/\<close> and \<open>Math.*\<close> below are exact on finite numbers
  (no rounding, no overflow, no signed zero). The rounding of a result to the nearest
  double is the separate function \<open>rnd\<close>; it is written out in the bracket search of the
  volatility step (its start, its step and its candidates), where the rounding decides
  whether the loop ends, and nowhere else.
  A statement below about a finite result of exact operations is a statement about the
  formulas of the program, not about the last bits of the double the program returns.
\<close>

datatype number = Num real | PosInf | NegInf | NaN

instantiation number :: "{plus, uminus, minus, times, inverse, ord}"
begin

fun plus_number :: "number \<Rightarrow> number \<Rightarrow> number" where
  "plus_number NaN y = NaN"
| "plus_number x NaN = NaN"
| "plus_number (Num a) (Num b) = Num (a + b)"
| "plus_number PosInf NegInf = NaN"
| "plus_number NegInf PosInf = NaN"
| "plus_number PosInf y = PosInf"
| "plus_number x PosInf = PosInf"
| "plus_number NegInf y = NegInf"
| "plus_number x NegInf = NegInf"

fun uminus_number :: "number \<Rightarrow> number" where
  "uminus_number (Num a) = Num (- a)"
| "uminus_number PosInf = NegInf"
| "uminus_number NegInf = PosInf"
| "uminus_number NaN = NaN"

definition minus_number :: "number \<Rightarrow> number \<Rightarrow> number" where
  "minus_number (x :: number) y = x + (- y)"

fun times_number :: "number \<Rightarrow> number \<Rightarrow> number" where
  "times_number NaN y = NaN"
| "times_number x NaN = NaN"
| "times_number (Num a) (Num b) = Num (a * b)"
| "times_number (Num a) PosInf = (if a = 0 then NaN else if 0 < a then PosInf else NegInf)"
| "times_number (Num a) NegInf = (if a = 0 then NaN else if 0 < a then NegInf else PosInf)"
| "times_number PosInf (Num b) = (if b = 0 then NaN else if 0 < b then PosInf else NegInf)"
| "times_number NegInf (Num b) = (if b = 0 then NaN else if 0 < b then NegInf else PosInf)"
| "times_number PosInf PosInf = PosInf"
| "times_number PosInf NegInf = NegInf"
| "times_number NegInf PosInf = NegInf"
| "times_number NegInf NegInf = PosInf"

fun divide_number :: "number \<Rightarrow> number \<Rightarrow> number" where
  "divide_number NaN y = NaN"
| "divide_number x NaN = NaN"
| "divide_number (Num a) (Num b) =
     (if b = 0 then (if a = 0 then NaN else if 0 < a then PosInf else NegInf)
      else Num (a / b))"
| "divide_number (Num a) PosInf = Num 0"
| "divide_number (Num a) NegInf = Num 0"
| "divide_number PosInf (Num b) = (if 0 \<le> b then PosInf else NegInf)"
| "divide_number NegInf (Num b) = (if 0 \<le> b then NegInf else PosInf)"
| "divide_number PosInf y = NaN"
| "divide_number NegInf y = NaN"

fun inverse_number :: "number \<Rightarrow> number" where
  "inverse_number (Num a) = (if a = 0 then PosInf else Num (1 / a))"
| "inverse_number PosInf = Num 0"
| "inverse_number NegInf = Num 0"
| "inverse_number NaN = NaN"

fun less_number :: "number \<Rightarrow> number \<Rightarrow> bool" where
  "less_number NaN y = False"
| "less_number x NaN = False"
| "less_number (Num a) (Num b) = (a < b)"
| "less_number x NegInf = False"
| "less_number NegInf y = True"
| "less_number PosInf y = False"
| "less_number x PosInf = True"

definition less_eq_number :: "number \<Rightarrow> number \<Rightarrow> bool" where
  "less_eq_number (x :: number) y = (x \<noteq> NaN \<and> y \<noteq> NaN \<and> (x < y \<or> x = y))"

instance ..

end

fun Math_abs :: "number \<Rightarrow> number" where
  "Math_abs (Num a) = Num \<bar>a\<bar>"
| "Math_abs PosInf = PosInf"
| "Math_abs NegInf = PosInf"
| "Math_abs NaN = NaN"

fun Math_sqrt :: "number \<Rightarrow> number" where
  "Math_sqrt (Num a) = (if a < 0 then NaN else Num (sqrt a))"
| "Math_sqrt PosInf = PosInf"
| "Math_sqrt NegInf = NaN"
| "Math_sqrt NaN = NaN"

fun Math_log :: "number \<Rightarrow> number" where
  "Math_log (Num a) = (if a < 0 then NaN else if a = 0 then NegInf else Num (ln a))"
| "Math_log PosInf = PosInf"
| "Math_log NegInf = NaN"
| "Math_log NaN = NaN"

fun Math_exp :: "number \<Rightarrow> number" where
  "Math_exp (Num a) = Num (exp a)"
| "Math_exp PosInf = PosInf"
| "Math_exp NegInf = Num 0"
| "Math_exp NaN = NaN"

text \<open>
  \<open>Math.pow(base, exponent)\<close>, by the cases of the language standard in their order:
  a \<open>NaN\<close> exponent, a zero exponent, a \<open>NaN\<close> base, an infinite base, a zero base,
  an infinite exponent, a negative base (a number only for an integer exponent), and the
  power of a positive base.
\<close>

fun Math_pow :: "number \<Rightarrow> number \<Rightarrow> number" where
  "Math_pow b NaN = NaN"
| "Math_pow b (Num y) =
     (if y = 0 then Num 1
      else (case b of
          NaN \<Rightarrow> NaN
        | PosInf \<Rightarrow> (if 0 < y then PosInf else Num 0)
        | NegInf \<Rightarrow>
            (if 0 < y then (if y = of_int \<lfloor>y\<rfloor> \<and> odd \<lfloor>y\<rfloor> then NegInf else PosInf)
             else Num 0)
        | Num x \<Rightarrow>
            (if x = 0 then (if 0 < y then Num 0 else PosInf)
             else if 0 < x then Num (x powr y)
             else if y = of_int \<lfloor>y\<rfloor>
               then (if odd \<lfloor>y\<rfloor> then Num (- (\<bar>x\<bar> powr y)) else Num (\<bar>x\<bar> powr y))
             else NaN)))"
| "Math_pow b PosInf =
     (case b of
        NaN \<Rightarrow> NaN
      | Num x \<Rightarrow> (if 1 < \<bar>x\<bar> then PosInf else if \<bar>x\<bar> = 1 then NaN else Num 0)
      | PosInf \<Rightarrow> PosInf
      | NegInf \<Rightarrow> PosInf)"
| "Math_pow b NegInf =
     (case b of
        NaN \<Rightarrow> NaN
      | Num x \<Rightarrow> (if 1 < \<bar>x\<bar> then Num 0 else if \<bar>x\<bar> = 1 then NaN else PosInf)
      | PosInf \<Rightarrow> Num 0
      | NegInf \<Rightarrow> Num 0)"

definition Math_E :: number where
  "Math_E = Num (exp 1)"

definition Math_PI :: number where
  "Math_PI = Num pi"

definition Math_sq :: "number \<Rightarrow> number" where
  "Math_sq x = x * x"

subsection \<open>Rounding to a double\<close>

text \<open>
  The double nearest to a real, ties to the even significand: a significand of 53 bits,
  the exponent of the last bit at least \<open>- 1074\<close> (subnormal numbers included), and an
  infinity in place of a result of magnitude \<open>2\<^sup>1\<^sup>0\<^sup>2\<^sup>4\<close> or more.
\<close>

definition round_half_even :: "real \<Rightarrow> int" where
  "round_half_even x =
     (let n = \<lfloor>x\<rfloor>; d = x - of_int n
      in if d < 1 / 2 then n else if 1 / 2 < d then n + 1 else if even n then n else n + 1)"

definition binary64_exponent :: "real \<Rightarrow> int" where
  "binary64_exponent x = max (\<lfloor>log 2 \<bar>x\<bar>\<rfloor> - 52) (- 1074)"

definition binary64 :: "real \<Rightarrow> number" where
  "binary64 x =
     (if x = 0 then Num 0
      else let u = 2 powr of_int (binary64_exponent x);
               y = of_int (round_half_even (x / u)) * u
           in if 2 ^ 1024 \<le> y then PosInf else if y \<le> - (2 ^ 1024) then NegInf else Num y)"

fun rnd :: "number \<Rightarrow> number" where
  "rnd (Num x) = binary64 x"
| "rnd PosInf = PosInf"
| "rnd NegInf = NegInf"
| "rnd NaN = NaN"

section \<open>Configuration and ratings\<close>

text \<open>
  The four exported variables of the module. \<open>falseskill.ts\<close> reads them at each use,
  so the model passes their current values to every function that reads one.
\<close>

record config =
  Tau :: number
  InitialRating :: number
  InitialDeviation :: number
  InitialVolatility :: number

definition defaults :: config where
  "defaults = \<lparr> Tau = Num 0.75, InitialRating = Num 1500, InitialDeviation = Num 350,
     InitialVolatility = Num 0.06 \<rparr>"

definition Loss :: number where "Loss = Num 0"
definition Draw :: number where "Draw = Num 0.5"
definition Win :: number where "Win = Num 1"

text \<open>
  A rating object. An opponent is a rating object of which only \<open>rating\<close> and
  \<open>deviation\<close> enter any arithmetic; its \<open>volatility\<close> is copied by the scale
  conversion and never read again.
\<close>

record PlayerRating =
  rating :: number
  deviation :: number
  volatility :: number

type_synonym OpponentRating = PlayerRating

definition newRating :: "config \<Rightarrow> PlayerRating" where
  "newRating cfg = \<lparr> rating = InitialRating cfg, deviation = InitialDeviation cfg,
     volatility = InitialVolatility cfg \<rparr>"

definition PiSq :: number where
  "PiSq = Math_PI * Math_PI"

subsection \<open>Scale conversion\<close>

definition toGlicko2Scale :: "PlayerRating \<Rightarrow> PlayerRating" where
  "toGlicko2Scale r = \<lparr> rating = (rating r - Num 1500) / Num 173.7178,
     deviation = deviation r / Num 173.7178,
     volatility = volatility r \<rparr>"

definition toGlicko1Scale :: "PlayerRating \<Rightarrow> PlayerRating" where
  "toGlicko1Scale r = \<lparr> rating = Num 173.7178 * rating r + Num 1500,
     deviation = Num 173.7178 * deviation r,
     volatility = volatility r \<rparr>"

section \<open>The rating computation\<close>

text \<open>The errors the program throws, under the names the specification gives them.\<close>

datatype error =
    InvalidArgument    \<comment> \<open>\<open>number of opponents is different than number of outcomes\<close>\<close>
  | DuplicatePlayer    \<comment> \<open>\<open>players cannot reach multiple ranks at once\<close>\<close>
  | PlayerNotFound     \<comment> \<open>\<open>there is no player matching the provided filter\<close>\<close>
  | EmptyOpponentSet   \<comment> \<open>named by the specification; no statement of the program throws it\<close>

definition calculateRatingDidNotCompete :: "PlayerRating \<Rightarrow> PlayerRating" where
  "calculateRatingDidNotCompete player =
     (let player = toGlicko2Scale player;
          player = player \<lparr> deviation :=
            Math_sqrt (Math_sq (deviation player) + Math_sq (volatility player)) \<rparr>
      in toGlicko1Scale player)"

definition g :: "number \<Rightarrow> number" where
  "g dev = Num 1 / Math_sqrt (Num 1 + Num 3 * Math_sq dev / PiSq)"

definition E :: "number \<Rightarrow> number \<Rightarrow> number \<Rightarrow> number" where
  "E r opponentRating opponentDeviation =
     Num 1 / (Num 1 + Math_exp ((- g opponentDeviation) * (r - opponentRating)))"

text \<open>Step 3: the sum accumulated by the first \<open>forEach\<close>, before \<open>v = 1.0 / v\<close>.\<close>

definition vSum :: "PlayerRating \<Rightarrow> OpponentRating list \<Rightarrow> number" where
  "vSum player opponents =
     foldl (\<lambda>v opponent.
        let e = E (rating player) (rating opponent) (deviation opponent)
        in v + Math_sq (g (deviation opponent)) * e * (Num 1 - e)) (Num 0) opponents"

text \<open>Step 4: \<open>DSum\<close>; \<open>outcomes[index]\<close> is in range, the lengths being equal.\<close>

definition DSum :: "PlayerRating \<Rightarrow> OpponentRating list \<Rightarrow> number list \<Rightarrow> number" where
  "DSum player opponents outcomes =
     foldl (\<lambda>s (opponent, outcome).
        s + g (deviation opponent)
              * (outcome - E (rating player) (rating opponent) (deviation opponent)))
       (Num 0) (zip opponents outcomes)"

text \<open>
  Step 5. The local function \<open>f\<close> closes over \<open>D\<close>, \<open>deviationSq\<close>, \<open>v\<close>, \<open>a\<close> and
  \<open>TauSq\<close>; here they are its first arguments.
\<close>

definition f :: "number \<Rightarrow> number \<Rightarrow> number \<Rightarrow> number \<Rightarrow> number \<Rightarrow> number \<Rightarrow> number" where
  "f TauSq D deviationSq v a x =
     (let ePowX = Math_pow Math_E x
      in (ePowX * (Math_sq D - deviationSq - v - ePowX))
           / Math_sq (Num 2 * (deviationSq + v + ePowX))
         - (x - a) / TauSq)"

text \<open>
  The function of the same name in the specification (and in the description of the
  rating system the program cites) has the divisor \<open>2 (\<phi>\<^sup>2 + v + e\<^sup>x)\<^sup>2\<close>, where the
  program squares the doubled sum: \<open>Math_sq(2.0 * (deviationSq + v + ePowX))\<close>. This
  second definition follows the words of the specification; the program does not
  contain it.
\<close>

definition f_specified ::
  "number \<Rightarrow> number \<Rightarrow> number \<Rightarrow> number \<Rightarrow> number \<Rightarrow> number \<Rightarrow> number" where
  "f_specified TauSq D deviationSq v a x =
     (let ePowX = Math_exp x
      in (ePowX * (Math_sq D - deviationSq - v - ePowX))
           / (Num 2 * Math_sq (deviationSq + v + ePowX))
         - (x - a) / TauSq)"

text \<open>
  \<open>let k = 1; while (f(a - k * Tau) < 0.0) k = k + 1\<close>, with the rounding written out.
  The counter holds a whole number: \<open>k + 1\<close> is exact below \<open>2\<^sup>5\<^sup>3\<close>, and at \<open>2\<^sup>5\<^sup>3\<close> the sum
  \<open>2\<^sup>5\<^sup>3 + 1\<close> lies between two doubles and is rounded back to \<open>2\<^sup>5\<^sup>3\<close>, so the counter
  stays there. The product \<open>k * Tau\<close> and the difference \<open>a - k * Tau\<close> are each rounded to
  a double. The loop may run forever, and then the result is \<open>None\<close>.
\<close>

partial_function (option) bracketSearch ::
  "(number \<Rightarrow> number) \<Rightarrow> number \<Rightarrow> number \<Rightarrow> nat \<Rightarrow> nat option" where
  "bracketSearch ff a tau k =
     (if ff (rnd (a - rnd (Num (real k) * tau))) < Num 0
      then bracketSearch ff a tau (if k < 2 ^ 53 then k + 1 else k)
      else Some k)"

text \<open>The bracket endpoint \<open>B\<close> (lines 104 to 112 of \<open>falseskill.ts\<close>).\<close>

definition bracketB ::
  "number \<Rightarrow> number \<Rightarrow> number \<Rightarrow> number \<Rightarrow> number \<Rightarrow> number \<Rightarrow> number option" where
  "bracketB tau TauSq D deviationSq v a =
     (let DSq = Math_sq D
      in if DSq > deviationSq + v then Some (Math_log (DSq - deviationSq - v))
         else (case bracketSearch (f TauSq D deviationSq v a) a tau 1 of
                 None \<Rightarrow> None
               | Some k \<Rightarrow> Some (rnd (a - rnd (Num (real k) * tau)))))"

text \<open>
  The iteration \<open>while (Math.abs(B - A) > 0.000001)\<close> on the state \<open>A, fA, B, fB\<close>;
  it returns the final \<open>A\<close>, or \<open>None\<close> when it runs forever.
\<close>

partial_function (option) illinois ::
  "(number \<Rightarrow> number) \<Rightarrow> number \<Rightarrow> number \<Rightarrow> number \<Rightarrow> number \<Rightarrow> number option" where
  "illinois ff A fA B fB =
     (if Math_abs (B - A) > Num 0.000001
      then (let C = A + (A - B) * fA / (fB - fA);
                fC = ff C
            in if fC * fB < Num 0 then illinois ff B fB C fC
               else illinois ff A (fA / Num 2) C fC)
      else Some A)"

text \<open>
  The body of \<open>calculateRating\<close>, with the two values the volatility step reads from the
  module as arguments: \<open>tau\<close> (the step of the bracket search) and \<open>TauSq\<close> (the divisor in
  \<open>f\<close>). The result is \<open>None\<close> when a loop does not end, \<open>Some (Inl e)\<close> when the call
  throws, \<open>Some (Inr r)\<close> when it returns \<open>r\<close>.
  The start \<open>a\<close> of the bracket search is the double that \<open>Math.log\<close> returns.
\<close>

definition calculateRating_body ::
  "number \<Rightarrow> number \<Rightarrow> PlayerRating \<Rightarrow> OpponentRating list \<Rightarrow> number list
     \<Rightarrow> (error + PlayerRating) option" where
  "calculateRating_body tau TauSq player opponents outcomes =
     (if length opponents \<noteq> length outcomes then Some (Inl InvalidArgument)
      else if length opponents = 0 then Some (Inr (calculateRatingDidNotCompete player))
      else
        let player = toGlicko2Scale player;
            opponents = map toGlicko2Scale opponents;
            v = Num 1 / vSum player opponents;
            DSum = DSum player opponents outcomes;
            D = v * DSum;
            a = rnd (Math_log (Math_sq (volatility player)));
            deviationSq = Math_sq (deviation player);
            ff = f TauSq D deviationSq v a
        in (case bracketB tau TauSq D deviationSq v a of
              None \<Rightarrow> None
            | Some B \<Rightarrow>
               (case illinois ff a (ff a) B (ff B) of
                  None \<Rightarrow> None
                | Some A \<Rightarrow>
                   let newVolatility = Math_pow Math_E (A / Num 2);
                       preRatingDeviation = Math_sqrt (deviationSq + Math_sq newVolatility);
                       newDeviation =
                         Num 1 / Math_sqrt (Num 1 / Math_sq preRatingDeviation + Num 1 / v);
                       newRating = rating player + Math_sq newDeviation * DSum
                   in Some (Inr (toGlicko1Scale
                        \<lparr> rating = newRating, deviation = newDeviation,
                          volatility = newVolatility \<rparr>)))))"

text \<open>\<open>falseskill.ts\<close>: \<open>const TauSq = Tau * Tau\<close> is computed inside each call.\<close>

definition calculateRating ::
  "config \<Rightarrow> PlayerRating \<Rightarrow> OpponentRating list \<Rightarrow> number list
     \<Rightarrow> (error + PlayerRating) option" where
  "calculateRating cfg = calculateRating_body (Tau cfg) (Tau cfg * Tau cfg)"

text \<open>
  The transpiled module (the AMD build of the same source) differs in one place:
  \<open>var TauSq = exports.Tau * exports.Tau\<close> is a variable of the module, assigned once when
  the module is loaded, while the bracket search reads \<open>exports.Tau\<close> at each call.
\<close>

record js_module =
  exports :: config
  TauSq :: number

definition load_module :: js_module where
  "load_module = \<lparr> exports = defaults, TauSq = Tau defaults * Tau defaults \<rparr>"

text \<open>The assignment \<open>falseskill.Tau = t\<close> by a client of the module.\<close>

definition assign_Tau :: "number \<Rightarrow> js_module \<Rightarrow> js_module" where
  "assign_Tau t m = m \<lparr> exports := (exports m) \<lparr> Tau := t \<rparr> \<rparr>"

definition calculateRating_js ::
  "js_module \<Rightarrow> PlayerRating \<Rightarrow> OpponentRating list \<Rightarrow> number list
     \<Rightarrow> (error + PlayerRating) option" where
  "calculateRating_js m = calculateRating_body (Tau (exports m)) (TauSq m)"

section \<open>Updates in place\<close>

text \<open>
  Rating objects are mutable and shared: a player object is the subject of one match and
  an opponent in others. The store maps the identity of an object to its fields.
\<close>

type_synonym ref = nat
type_synonym heap = "ref \<Rightarrow> PlayerRating"

text \<open>
  \<open>copyRating(from, to)\<close> writes the three fields of \<open>to\<close>. In both callers \<open>from\<close>
  is the fresh object a computation returned, so it is passed by value.
\<close>

definition copyRating :: "PlayerRating \<Rightarrow> ref \<Rightarrow> heap \<Rightarrow> heap" where
  "copyRating from to h =
     h (to := (h to) \<lparr> rating := rating from, deviation := deviation from,
                        volatility := volatility from \<rparr>)"

text \<open>
  A call that changes the store returns the store it leaves behind, also when it throws:
  \<open>None\<close> is a call that does not return, \<open>Some (Inl e, h)\<close> one that throws \<open>e\<close>.
\<close>

definition updateRating ::
  "config \<Rightarrow> ref \<Rightarrow> ref list \<Rightarrow> number list \<Rightarrow> heap \<Rightarrow> ((error + unit) \<times> heap) option" where
  "updateRating cfg p opps outs h =
     (case calculateRating cfg (h p) (map h opps) outs of
        None \<Rightarrow> None
      | Some (Inl e) \<Rightarrow> Some (Inl e, h)
      | Some (Inr r) \<Rightarrow> Some (Inr (), copyRating r p h))"

definition updateRatingDidNotCompete :: "ref \<Rightarrow> heap \<Rightarrow> heap" where
  "updateRatingDidNotCompete p h = copyRating (calculateRatingDidNotCompete (h p)) p h"

section \<open>Matches of a multiplayer game\<close>

record IndexedPlayer =
  rank :: nat
  player :: ref

record Match =
  player :: ref
  opponents :: "ref list"
  outcomes :: "number list"

text \<open>
  The variables of the first pass of \<open>deriveMatches\<close>. An \<open>IndexedPlayer\<close> object is
  created once and pushed once, so its identity is its position in \<open>indexedPlayers\<close>;
  \<open>filteredPlayer\<close> holds that position, or \<open>None\<close> for \<open>null\<close>.
\<close>

record indexing =
  indexedPlayers :: "IndexedPlayer list"
  playersAlreadyIndexed :: "ref list"
  filteredPlayer :: "nat option"

definition indexPlayer :: "ref option \<Rightarrow> nat \<Rightarrow> ref \<Rightarrow> indexing \<Rightarrow> error + indexing" where
  "indexPlayer filterBy rnk p st =
     (if p \<in> set (playersAlreadyIndexed st) then Inl DuplicatePlayer
      else Inr \<lparr> indexedPlayers = indexedPlayers st @ [\<lparr> rank = rnk, player = p \<rparr>],
                 playersAlreadyIndexed = playersAlreadyIndexed st @ [p],
                 filteredPlayer =
                   (if filterBy = Some p then Some (length (indexedPlayers st))
                    else filteredPlayer st) \<rparr>)"

fun indexGroup :: "ref option \<Rightarrow> nat \<Rightarrow> ref list \<Rightarrow> indexing \<Rightarrow> error + indexing" where
  "indexGroup filterBy rnk [] st = Inr st"
| "indexGroup filterBy rnk (p # ps) st =
     (case indexPlayer filterBy rnk p st of
        Inl e \<Rightarrow> Inl e
      | Inr st' \<Rightarrow> indexGroup filterBy rnk ps st')"

fun indexRankings :: "ref option \<Rightarrow> nat \<Rightarrow> ref list list \<Rightarrow> indexing \<Rightarrow> error + indexing" where
  "indexRankings filterBy rnk [] st = Inr st"
| "indexRankings filterBy rnk (players # rankings) st =
     (case indexGroup filterBy rnk players st of
        Inl e \<Rightarrow> Inl e
      | Inr st' \<Rightarrow> indexRankings filterBy (Suc rnk) rankings st')"

definition outcomeAgainst :: "nat \<Rightarrow> nat \<Rightarrow> number" where
  "outcomeAgainst r r' = (if r < r' then Win else if r > r' then Loss else Draw)"

text \<open>The match of the indexed player at position \<open>i\<close>: every other position is an opponent.\<close>

definition deriveMatch :: "IndexedPlayer list \<Rightarrow> nat \<Rightarrow> Match" where
  "deriveMatch ips i =
     (let others = filter (\<lambda>j. j \<noteq> i) [0..<length ips]
      in \<lparr> player = IndexedPlayer.player (ips ! i),
           opponents = map (\<lambda>j. IndexedPlayer.player (ips ! j)) others,
           outcomes = map (\<lambda>j. outcomeAgainst (rank (ips ! i)) (rank (ips ! j))) others \<rparr>)"

definition deriveMatches :: "ref list list \<Rightarrow> ref option \<Rightarrow> error + Match list" where
  "deriveMatches rankings filterBy =
     (case indexRankings filterBy 0 rankings
             \<lparr> indexedPlayers = [], playersAlreadyIndexed = [], filteredPlayer = None \<rparr> of
        Inl e \<Rightarrow> Inl e
      | Inr st \<Rightarrow>
         (if filterBy \<noteq> None \<and> filteredPlayer st = None then Inl PlayerNotFound
          else Inr (map (deriveMatch (indexedPlayers st))
                 (case filterBy of
                    None \<Rightarrow> [0..<length (indexedPlayers st)]
                  | Some q \<Rightarrow> (case filteredPlayer st of None \<Rightarrow> [] | Some i \<Rightarrow> [i])))))"

text \<open>\<open>matches.forEach\<close>: in list order, each on the store the previous call left; a
  throw ends the loop.\<close>

fun updateRatings :: "config \<Rightarrow> Match list \<Rightarrow> heap \<Rightarrow> ((error + unit) \<times> heap) option" where
  "updateRatings cfg [] h = Some (Inr (), h)"
| "updateRatings cfg (m # ms) h =
     (case updateRating cfg (player m) (opponents m) (outcomes m) h of
        None \<Rightarrow> None
      | Some (Inl e, h') \<Rightarrow> Some (Inl e, h')
      | Some (Inr u, h') \<Rightarrow> updateRatings cfg ms h')"

text \<open>
  The reading of "independently per match" that is compared with \<open>updateRatings\<close>: each
  match that is reached reads, for its opponents, the ratings the store held when the
  batch began.
\<close>

definition observesOriginalOpponents :: "config \<Rightarrow> Match list \<Rightarrow> heap \<Rightarrow> bool" where
  "observesOriginalOpponents cfg ms h =
     list_all (\<lambda>i. case updateRatings cfg (take i ms) h of
                      Some (Inr u, h') \<Rightarrow> map h' (opponents (ms ! i)) = map h (opponents (ms ! i))
                    | _ \<Rightarrow> True)
       [0..<length ms]"

section \<open>Match quality\<close>

text \<open>
  The result structure. Its fields \<open>min\<close> and \<open>max\<close> are \<open>min_q\<close> and \<open>max_q\<close> here, and
  the loop variables \<open>min\<close>, \<open>max\<close> and \<open>sum\<close> are \<open>minv\<close>, \<open>maxv\<close> and \<open>sumv\<close>, the
  plain names being those of library functions.
\<close>

record MatchQuality =
  qualities :: "number list"
  min_q :: number
  max_q :: number
  avg :: number
  med :: number
  str :: number

definition calculateMatchQualityG1 :: "config \<Rightarrow> PlayerRating \<Rightarrow> OpponentRating \<Rightarrow> number" where
  "calculateMatchQualityG1 cfg p opponent =
     (let expectedScore =
            Num 1 / (Num 1 + Math_pow (Num 10)
                       ((rating opponent - rating p) / (Num 2 * InitialDeviation cfg)))
      in (Num 0.5 - Math_abs (expectedScore - Num 0.5)) / Num 0.5)"

text \<open>
  The body of \<open>opponents.forEach\<close> on the variables \<open>qualities\<close>, \<open>min\<close>, \<open>max\<close>,
  \<open>sum\<close>, \<open>strongestOpponent\<close> (\<open>None\<close> for \<open>null\<close>) and \<open>strongest\<close>.
\<close>

definition qualityStep ::
  "config \<Rightarrow> PlayerRating
     \<Rightarrow> number list \<times> number \<times> number \<times> number \<times> OpponentRating option \<times> number
     \<Rightarrow> OpponentRating
     \<Rightarrow> number list \<times> number \<times> number \<times> number \<times> OpponentRating option \<times> number" where
  "qualityStep cfg p = (\<lambda>(qs, minv, maxv, sumv, strongestOpponent, strongest) opponent.
     let quality = calculateMatchQualityG1 cfg p opponent;
         minv = (if quality < minv then quality else minv);
         maxv = (if quality > maxv then quality else maxv);
         sumv = sumv + quality;
         qs = qs @ [quality]
     in if (case strongestOpponent of
              None \<Rightarrow> True
            | Some s \<Rightarrow> rating opponent > rating s)
        then (qs, minv, maxv, sumv, Some opponent, quality)
        else (qs, minv, maxv, sumv, strongestOpponent, strongest))"

text \<open>
  \<open>sortedQualities.sort()\<close> is called without a comparison function: the language then
  orders the elements by their strings, compared by code units, and keeps the order of
  elements with equal strings. The conversion of a number to its string belongs to the
  language, not to the program, and is the parameter \<open>toString\<close>.
\<close>

definition defaultSort :: "(number \<Rightarrow> string) \<Rightarrow> number list \<Rightarrow> number list" where
  "defaultSort toString xs = sort_key toString xs"

text \<open>
  An indexed read in the median. A read outside the array gives \<open>undefined\<close>, and the
  addition it enters gives \<open>NaN\<close>; it happens only for the empty array, where both
  operands of the addition are read out of range.
\<close>

definition elementAt :: "number list \<Rightarrow> int \<Rightarrow> number" where
  "elementAt xs i = (if 0 \<le> i \<and> i < int (length xs) then xs ! nat i else NaN)"

definition calculateMatchQuality ::
  "config \<Rightarrow> (number \<Rightarrow> string) \<Rightarrow> PlayerRating \<Rightarrow> OpponentRating list
     \<Rightarrow> error + MatchQuality" where
  "calculateMatchQuality cfg toString p opps =
     (case foldl (qualityStep cfg p) ([], Num 1, Num 0, Num 0, None, Num 0) opps of
        (qs, minv, maxv, sumv, strongestOpponent, strongest) \<Rightarrow>
          let sortedQualities = defaultSort toString qs;
              half = int (length sortedQualities div 2);
              median =
                (if odd (length sortedQualities) then elementAt sortedQualities half
                 else (elementAt sortedQualities (half - 1) + elementAt sortedQualities half)
                        / Num 2)
          in Inr \<lparr> qualities = qs, min_q = minv, max_q = maxv,
                   avg = sumv / Num (real (length opps)), med = median,
                   str = strongest \<rparr>)"

text \<open>
  The median in the words of the specification: the list sorted in ascending numeric
  order, its middle element, or the mean of its two middle elements.
\<close>

definition numericMedian :: "real list \<Rightarrow> real" where
  "numericMedian xs =
     (let sorted_xs = sort xs; half = length xs div 2
      in if odd (length xs) then sorted_xs ! half
         else (sorted_xs ! (half - 1) + sorted_xs ! half) / 2)"

section \<open>Arithmetic on finite numbers\<close>

lemma minus_Num [simp]: "Num a - Num b = Num (a - b)"
  by (simp add: minus_number_def)

lemma Math_sq_Num [simp]: "Math_sq (Num x) = Num (x * x)"
  by (simp add: Math_sq_def)

lemma Math_pow_E [simp]: "Math_pow Math_E (Num x) = Num (exp x)"
  by (simp add: Math_E_def powr_def)

lemma Math_pow_10 [simp]: "Math_pow (Num 10) (Num y) = Num (10 powr y)"
  by simp

declare Math_pow.simps [simp del]

section \<open>Rounding to a double\<close>

lemma floor_log2:
  assumes "2 powr of_int n \<le> \<bar>x\<bar>" "\<bar>x\<bar> < 2 powr of_int (n + 1)"
  shows "\<lfloor>log 2 \<bar>x\<bar>\<rfloor> = n"
proof -
  have "(0::real) < 2 powr of_int n" by simp
  with assms(1) have pos: "0 < \<bar>x\<bar>" by linarith
  have "of_int n \<le> log 2 \<bar>x\<bar>" using assms(1) pos by (simp add: le_log_iff)
  moreover have "log 2 \<bar>x\<bar> < of_int (n + 1)" using assms(2) pos by (simp add: log_less_iff)
  ultimately show ?thesis by linarith
qed

lemma round_half_even_near:
  assumes "\<bar>d\<bar> < 1 / 2"
  shows "round_half_even (of_int n + d) = n"
proof (cases "0 \<le> d")
  case True
  then have "\<lfloor>of_int n + d\<rfloor> = n" using assms by linarith
  then show ?thesis using assms True by (simp add: round_half_even_def Let_def)
next
  case False
  then have "\<lfloor>of_int n + d\<rfloor> = n - 1" using assms by linarith
  then show ?thesis using assms False by (simp add: round_half_even_def Let_def)
qed

lemma round_half_even_close: "\<bar>of_int (round_half_even x) - x\<bar> \<le> 1 / 2"
  unfolding round_half_even_def Let_def by (auto; linarith)


lemma binary64_exponent_4_8:
  assumes "4 \<le> \<bar>x\<bar>" "\<bar>x\<bar> < 8"
  shows "binary64_exponent x = - 50"
proof -
  have "(2::real) powr of_int 2 = 4" "(2::real) powr of_int (2 + 1) = 8"
    by (simp_all add: powr_numeral)
  with floor_log2 [of 2 x] assms have "\<lfloor>log 2 \<bar>x\<bar>\<rfloor> = 2" by simp
  then show ?thesis by (simp add: binary64_exponent_def)
qed

lemma binary64_finite:
  assumes "x \<noteq> 0" "round_half_even (x / 2 powr of_int (binary64_exponent x)) = N"
    "\<bar>real_of_int N * 2 powr of_int (binary64_exponent x)\<bar> \<le> 8"
  shows "binary64 x = Num (of_int N * 2 powr of_int (binary64_exponent x))"
proof -
  let ?y = "real_of_int N * 2 powr of_int (binary64_exponent x)"
  have "(8::real) < 2 ^ 1024" by simp
  with assms(3) have a: "\<not> 2 ^ 1024 \<le> ?y" and b: "\<not> ?y \<le> - (2 ^ 1024)" by linarith+
  show ?thesis unfolding binary64_def Let_def assms(2)
    by (simp only: assms(1) a b if_False)
qed

lemma binary64_absorb:
  fixes N :: int and y :: real
  defines "u \<equiv> 2 powr of_int (- 50)"
  assumes "9 / 2 \<le> \<bar>of_int N * u\<bar>" "\<bar>of_int N * u\<bar> \<le> 15 / 2" "\<bar>y\<bar> \<le> 2 powr (- 60)"
  shows "binary64 (of_int N * u - y) = Num (of_int N * u)"
proof -
  define z where "z = of_int N * u - y"
  have u: "0 < u" by (simp add: u_def)
  have "(2::real) powr (- 60) < 1 / 2"
    by (simp add: powr_minus powr_numeral divide_simps)
  with assms(4) have ysmall: "\<bar>y\<bar> < 1 / 2" by linarith
  have z: "4 \<le> \<bar>z\<bar>" "\<bar>z\<bar> < 8" using assms(2,3) ysmall unfolding z_def by linarith+
  then have e: "binary64_exponent z = - 50" by (rule binary64_exponent_4_8)
  then have ue: "2 powr of_int (binary64_exponent z) = u" by (simp only: u_def)
  have "y / u = y * 2 powr 50" by (simp add: u_def powr_minus divide_simps)
  moreover have "\<bar>y * 2 powr 50\<bar> \<le> 2 powr (- 60) * 2 powr 50"
    using assms(4) by (simp add: abs_mult mult_right_mono)
  moreover have "(2::real) powr (- 60) * 2 powr 50 < 1 / 2"
    by (simp add: powr_minus powr_numeral divide_simps)
  ultimately have d: "\<bar>- (y / u)\<bar> < 1 / 2" by simp
  have "z / u = of_int N + (- (y / u))" using u by (simp add: z_def field_simps)
  then have r: "round_half_even (z / u) = N" using round_half_even_near [OF d, of N] by simp
  have "z \<noteq> 0" using z by auto
  moreover have "\<bar>of_int N * u\<bar> \<le> 8" using assms(3) by linarith
  ultimately have "binary64 z = Num (of_int N * 2 powr of_int (binary64_exponent z))"
    using r by (intro binary64_finite) (simp_all only: ue not_False_eq_True)
  then have "binary64 z = Num (of_int N * u)" by (simp only: ue)
  then show ?thesis by (simp only: z_def)
qed

lemma binary64_small:
  assumes "\<bar>y\<bar> \<le> 2 powr (- 200)"
  shows "\<exists>y'. binary64 y = Num y' \<and> \<bar>y'\<bar> \<le> 2 powr (- 199)"
proof (cases "y = 0")
  case True
  then show ?thesis by (simp add: binary64_def)
next
  case False
  define u :: real where "u = 2 powr of_int (binary64_exponent y)"
  define y' where "y' = of_int (round_half_even (y / u)) * u"
  have u: "0 < u" by (simp add: u_def)
  have "log 2 \<bar>y\<bar> \<le> - 200" using assms False by (simp add: log_le_iff)
  then have "\<lfloor>log 2 \<bar>y\<bar>\<rfloor> \<le> - 200" by linarith
  then have "binary64_exponent y \<le> - 252" unfolding binary64_exponent_def by linarith
  then have "u \<le> 2 powr (- 252)" unfolding u_def by (simp)
  also have "\<dots> \<le> 2 powr (- 200)" by simp
  finally have ule: "u \<le> 2 powr (- 200)" .
  have "\<bar>of_int (round_half_even (y / u)) - y / u\<bar> \<le> 1 / 2" by (rule round_half_even_close)
  then have "\<bar>of_int (round_half_even (y / u)) - y / u\<bar> * u \<le> 1 / 2 * u"
    using u by (intro mult_right_mono) simp_all
  moreover have "\<bar>of_int (round_half_even (y / u)) - y / u\<bar> * u = \<bar>y' - y\<bar>"
  proof -
    have "(of_int (round_half_even (y / u)) - y / u) * u = y' - y"
      using u by (simp add: y'_def field_simps)
    then have "\<bar>y' - y\<bar> = \<bar>(of_int (round_half_even (y / u)) - y / u) * u\<bar>" by simp
    also have "\<dots> = \<bar>of_int (round_half_even (y / u)) - y / u\<bar> * \<bar>u\<bar>" by (rule abs_mult)
    finally show ?thesis using u by simp
  qed
  ultimately have "\<bar>y' - y\<bar> \<le> u / 2" by simp
  with ule assms have "\<bar>y'\<bar> \<le> 2 powr (- 200) + 2 powr (- 200)" by linarith
  also have "\<dots> = 2 powr (- 199)"
    by (simp add: powr_minus powr_numeral divide_simps)
  finally have b: "\<bar>y'\<bar> \<le> 2 powr (- 199)" .
  have "(2::real) powr (- 199) \<le> 2 powr 0" by (rule powr_mono) simp_all
  with b have "\<bar>y'\<bar> \<le> 8" by simp
  with False have "binary64 y = Num y'" unfolding y'_def u_def
    by (intro binary64_finite) simp_all
  with b show ?thesis by blast
qed



lemma binary64_zero [simp]: "binary64 0 = Num 0"
  by (simp add: binary64_def)

text \<open>
  A real between \<open>5\<close> and \<open>7\<close> in magnitude is rounded to a multiple of \<open>2\<^sup>-\<^sup>5\<^sup>0\<close>
  that \<open>binary64_absorb\<close> applies to.
\<close>

lemma binary64_5_7:
  assumes "5 \<le> \<bar>x\<bar>" "\<bar>x\<bar> \<le> 7"
  shows "\<exists>N. binary64 x = Num (of_int N * 2 powr of_int (- 50))
     \<and> 9 / 2 \<le> \<bar>real_of_int N * 2 powr of_int (- 50)\<bar>
     \<and> \<bar>real_of_int N * 2 powr of_int (- 50)\<bar> \<le> 15 / 2"
proof -
  define u :: real where "u = 2 powr of_int (- 50)"
  define N where "N = round_half_even (x / u)"
  have u: "0 < u" by (simp add: u_def)
  have "u \<le> 2 powr 0" unfolding u_def by (intro powr_mono) simp_all
  then have u1: "u \<le> 1" by simp
  have e: "binary64_exponent x = - 50" using assms by (intro binary64_exponent_4_8) linarith+
  have "\<bar>of_int N - x / u\<bar> \<le> 1 / 2" unfolding N_def by (rule round_half_even_close)
  then have le: "\<bar>of_int N - x / u\<bar> * \<bar>u\<bar> \<le> 1 / 2 * \<bar>u\<bar>"
    by (intro mult_right_mono) simp_all
  have eq: "(of_int N - x / u) * u = of_int N * u - x" using u by (simp add: field_simps)
  have "\<bar>of_int N * u - x\<bar> = \<bar>(of_int N - x / u) * u\<bar>" by (simp only: eq)
  also have "\<dots> = \<bar>of_int N - x / u\<bar> * \<bar>u\<bar>" by (rule abs_mult)
  also have "\<dots> \<le> 1 / 2 * \<bar>u\<bar>" by (rule le)
  finally have "\<bar>of_int N * u - x\<bar> \<le> 1 / 2 * \<bar>u\<bar>" .
  with u u1 have close: "\<bar>of_int N * u - x\<bar> \<le> 1 / 2" by linarith
  with assms have b: "9 / 2 \<le> \<bar>of_int N * u\<bar>" "\<bar>of_int N * u\<bar> \<le> 15 / 2" by linarith+
  have "x \<noteq> 0" using assms by auto
  moreover have "\<bar>of_int N * u\<bar> \<le> 8" using b by linarith
  ultimately have "binary64 x = Num (of_int N * 2 powr of_int (binary64_exponent x))"
    unfolding N_def u_def by (intro binary64_finite) (simp_all add: e)
  then have r: "binary64 x = Num (of_int N * u)" by (simp add: e u_def)
  show ?thesis unfolding u_def [symmetric]
    by (rule exI [of _ N]) (intro conjI r b)
qed

section \<open>The scale conversion\<close>




section \<open>The call without opponents\<close>




section \<open>Lists of different lengths\<close>

text \<open>
  C6. When the list of opponents and the list of outcomes differ in length,
  \<open>updateRating\<close> throws the error of the length check and leaves the store as it was:
  no field of the player, nor of any other object, is written.
\<close>

theorem updateRating_length_mismatch:
  "length opps \<noteq> length outs \<Longrightarrow>
     calculateRating cfg (h p) (map h opps) outs = Some (Inl InvalidArgument)
     \<and> updateRating cfg p opps outs h = Some (Inl InvalidArgument, h)"
  by (simp add: updateRating_def calculateRating_def calculateRating_body_def)

theorem updateRating_length_mismatch_witness:
  "length [1 :: nat] \<noteq> length ([] :: number list)
   \<and> updateRating defaults 0 [1] [] (\<lambda>r. newRating defaults)
        = Some (Inl InvalidArgument, \<lambda>r. newRating defaults)"
  using updateRating_length_mismatch [of "[1]" "[]" defaults "\<lambda>r. newRating defaults" 0]
  by simp

section \<open>Match quality without opponents\<close>





section \<open>Duplicate players in a ranking\<close>

lemma indexGroup_Inl: "indexGroup fb rnk ps st = Inl e \<Longrightarrow> e = DuplicatePlayer"
  by (induction ps arbitrary: st) (auto simp: indexPlayer_def split: if_splits sum.splits)

lemma indexGroup_Inr_iff:
  "(\<exists>st'. indexGroup fb rnk ps st = Inr st') \<longleftrightarrow>
     distinct ps \<and> set ps \<inter> set (playersAlreadyIndexed st) = {}"
  by (induction ps arbitrary: st) (auto simp: indexPlayer_def split: sum.splits)

lemma indexGroup_already:
  "indexGroup fb rnk ps st = Inr st' \<Longrightarrow>
     playersAlreadyIndexed st' = playersAlreadyIndexed st @ ps"
  by (induction ps arbitrary: st) (auto simp: indexPlayer_def split: if_splits sum.splits)

lemma indexRankings_Inl: "indexRankings fb rnk rs st = Inl e \<Longrightarrow> e = DuplicatePlayer"
  by (induction rs arbitrary: st rnk) (auto split: sum.splits dest: indexGroup_Inl)

lemma indexRankings_Inr_iff:
  "(\<exists>st'. indexRankings fb rnk rs st = Inr st') \<longleftrightarrow>
     distinct (concat rs) \<and> set (concat rs) \<inter> set (playersAlreadyIndexed st) = {}"
proof (induction rs arbitrary: st rnk)
  case Nil
  then show ?case by simp
next
  case (Cons ps rs)
  show ?case
  proof (cases "indexGroup fb rnk ps st")
    case (Inl e)
    with indexGroup_Inr_iff [of fb rnk ps st] show ?thesis by auto
  next
    case (Inr st1)
    with indexGroup_Inr_iff [of fb rnk ps st]
    have d: "distinct ps" "set ps \<inter> set (playersAlreadyIndexed st) = {}"
      by auto
    from Inr have a: "playersAlreadyIndexed st1 = playersAlreadyIndexed st @ ps"
      by (rule indexGroup_already)
    show ?thesis using Inr d a Cons.IH [of "Suc rnk" st1] by auto
  qed
qed

lemma deriveMatches_duplicate_iff:
  "deriveMatches rankings fb = Inl DuplicatePlayer \<longleftrightarrow> \<not> distinct (concat rankings)"
proof -
  let ?st0 = "\<lparr> indexedPlayers = [], playersAlreadyIndexed = [], filteredPlayer = None \<rparr>"
  show ?thesis
  proof (cases "indexRankings fb 0 rankings ?st0")
    case (Inl e)
    then have "e = DuplicatePlayer" by (rule indexRankings_Inl)
    moreover from Inl indexRankings_Inr_iff [of fb 0 rankings ?st0]
    have "\<not> distinct (concat rankings)" by auto
    ultimately show ?thesis using Inl by (simp add: deriveMatches_def)
  next
    case (Inr st)
    with indexRankings_Inr_iff [of fb 0 rankings ?st0] have "distinct (concat rankings)"
      by auto
    then show ?thesis using Inr by (simp add: deriveMatches_def)
  qed
qed

text \<open>
  C10. \<open>deriveMatches\<close> fails with the duplicate-player error exactly when some player
  object occurs twice in the traversal of all groups; in particular it fails when a
  single group holds the same player object twice. The filter plays no part.
\<close>

theorem deriveMatches_duplicate_any_group:
  "(deriveMatches rankings filterBy = Inl DuplicatePlayer \<longleftrightarrow> \<not> distinct (concat rankings))
   \<and> ((\<exists>players \<in> set rankings. \<not> distinct players)
        \<longrightarrow> deriveMatches rankings filterBy = Inl DuplicatePlayer)"
  using deriveMatches_duplicate_iff [of rankings filterBy] by (auto simp: distinct_concat_iff)

theorem deriveMatches_duplicate_any_group_witness:
  "(\<exists>players \<in> set [[0, 0 :: nat]]. \<not> distinct players)
   \<and> deriveMatches [[0, 0]] None = Inl DuplicatePlayer"
  using deriveMatches_duplicate_any_group [of "[[0, 0]]" None] by simp

section \<open>The bracket search of the volatility step\<close>

lemma f_Num:
  assumes "0 \<le> dsq" "0 < v" "tsq \<noteq> 0"
  shows "f (Num tsq) (Num D) (Num dsq) (Num v) (Num a) (Num x) =
     Num (exp x * (D * D - dsq - v - exp x)
            / ((2 * (dsq + v + exp x)) * (2 * (dsq + v + exp x)))
          - (x - a) / tsq)"
proof -
  have "0 < dsq + v + exp x" using assms by (simp add: add_pos_pos add_nonneg_pos)
  then show ?thesis using assms by (simp add: f_def Let_def)
qed



text \<open>
  What the search has established when it returns the counter \<open>k\<close>: the test
  \<open>f(a - k * Tau) < 0\<close> failed at \<open>k\<close> and held at every counter before it, and \<open>k\<close> is at
  most \<open>2\<^sup>5\<^sup>3\<close>, where the counter stops growing.
\<close>

lemma bracketSearch_Some:
  assumes "bracketSearch ff a tau k0 = Some k"
  shows "k0 \<le> k \<and> (k \<le> 2 ^ 53 \<or> k = k0)
     \<and> \<not> ff (rnd (a - rnd (Num (real k) * tau))) < Num 0
     \<and> (\<forall>j. k0 \<le> j \<and> j < k \<longrightarrow> ff (rnd (a - rnd (Num (real j) * tau))) < Num 0)"
proof (rule bracketSearch.raw_induct
    [where P = "\<lambda>ff a tau k0 k. k0 \<le> k \<and> (k \<le> 2 ^ 53 \<or> k = k0)
       \<and> \<not> ff (rnd (a - rnd (Num (real k) * tau))) < Num 0
       \<and> (\<forall>j. k0 \<le> j \<and> j < k \<longrightarrow> ff (rnd (a - rnd (Num (real j) * tau))) < Num 0)",
     OF _ assms])
  fix bs :: "(number \<Rightarrow> number) \<Rightarrow> number \<Rightarrow> number \<Rightarrow> nat \<Rightarrow> nat option"
  fix ff a tau and k0 k :: nat
  assume IH: "\<And>ff a tau k0 k. bs ff a tau k0 = Some k \<Longrightarrow>
      k0 \<le> k \<and> (k \<le> 2 ^ 53 \<or> k = k0)
       \<and> \<not> ff (rnd (a - rnd (Num (real k) * tau))) < Num 0
       \<and> (\<forall>j. k0 \<le> j \<and> j < k \<longrightarrow> ff (rnd (a - rnd (Num (real j) * tau))) < Num 0)"
  assume body:
    "(if ff (rnd (a - rnd (Num (real k0) * tau))) < Num 0
      then bs ff a tau (if k0 < 2 ^ 53 then k0 + 1 else k0) else Some k0) = Some k"
  show "k0 \<le> k \<and> (k \<le> 2 ^ 53 \<or> k = k0)
     \<and> \<not> ff (rnd (a - rnd (Num (real k) * tau))) < Num 0
     \<and> (\<forall>j. k0 \<le> j \<and> j < k \<longrightarrow> ff (rnd (a - rnd (Num (real j) * tau))) < Num 0)"
  proof (cases "ff (rnd (a - rnd (Num (real k0) * tau))) < Num 0")
    case neg: True
    show ?thesis
    proof (cases "k0 < 2 ^ 53")
      case True
      with body neg have "bs ff a tau (k0 + 1) = Some k" by simp
      from IH [OF this] have ih: "k0 + 1 \<le> k" "k \<le> 2 ^ 53 \<or> k = k0 + 1"
         "\<not> ff (rnd (a - rnd (Num (real k) * tau))) < Num 0"
         "\<forall>j. k0 + 1 \<le> j \<and> j < k \<longrightarrow> ff (rnd (a - rnd (Num (real j) * tau))) < Num 0"
        by auto
      have "ff (rnd (a - rnd (Num (real j) * tau))) < Num 0" if "k0 \<le> j" "j < k" for j
      proof (cases "j = k0")
        case True with neg show ?thesis by simp
      next
        case False with that ih(4) show ?thesis by simp
      qed
      moreover have "k \<le> 2 ^ 53" using ih(2) True by auto
      ultimately show ?thesis using ih(1,3) by simp
    next
      case False
      with body neg have "bs ff a tau k0 = Some k" by simp
      from IH [OF this] show ?thesis .
    qed
  next
    case False
    with body have "k = k0" by simp
    with False show ?thesis by auto
  qed
qed


text \<open>
  The function of the program and the function of the specification differ, and so can
  the sign that the search tests: for \<open>\<Delta> = 0\<close>, \<open>\<phi>\<^sup>2 = v = 0.1\<close>, \<open>a = 3\<close> and \<open>Tau = 3\<close>, at the
  first candidate \<open>x = a - Tau = 0\<close>, the program computes \<open>1/8\<close>, where the specified
  function has the value \<open>- 1/12\<close>; the search of the program stops at this candidate,
  and a search with the specified function would go on.
\<close>

lemma f_is_not_f_specified:
  "f (Num 3 * Num 3) (Num 0) (Num 0.1) (Num 0.1) (Num 3) (Num 0) = Num (1 / 8)"
  "f_specified (Num 3 * Num 3) (Num 0) (Num 0.1) (Num 0.1) (Num 3) (Num 0) = Num (- (1 / 12))"
  by (simp_all add: f_def f_specified_def Let_def)

text \<open>
  The values \<open>v = 1\<close>, \<open>D = 0\<close>, \<open>a = 0\<close> and \<open>deviationSq = 1\<close> are those of the call for
  a player of rating 1500, deviation 173.7178 and volatility 1 with two wins and two
  losses against four opponents of rating 1500 and deviation 0.
\<close>

lemma volatility_step_example:
  "vSum (toGlicko2Scale \<lparr> rating = Num 1500, deviation = Num 173.7178, volatility = Num 1 \<rparr>)
     (map toGlicko2Scale (replicate 4 \<lparr> rating = Num 1500, deviation = Num 0, volatility = w \<rparr>))
     = Num 1
   \<and> DSum (toGlicko2Scale \<lparr> rating = Num 1500, deviation = Num 173.7178, volatility = Num 1 \<rparr>)
       (map toGlicko2Scale (replicate 4 \<lparr> rating = Num 1500, deviation = Num 0, volatility = w \<rparr>))
       [Win, Win, Loss, Loss] = Num 0
   \<and> rnd (Math_log (Math_sq (volatility
         (toGlicko2Scale \<lparr> rating = Num 1500, deviation = Num 173.7178, volatility = Num 1 \<rparr>))))
       = Num 0
   \<and> Math_sq (deviation
         (toGlicko2Scale \<lparr> rating = Num 1500, deviation = Num 173.7178, volatility = Num 1 \<rparr>))
       = Num 1"
  by (simp add: vSum_def DSum_def toGlicko2Scale_def g_def E_def PiSq_def Math_PI_def
      Win_def Loss_def numeral_eq_Suc)




section \<open>A search that does not end\<close>

text \<open>
  When the step is so small that every candidate \<open>a - k * Tau\<close> is rounded to \<open>a\<close> itself
  (here: \<open>a\<close> a double between 4.5 and 7.5 in magnitude, \<open>Tau\<close> at most \<open>2\<^sup>-\<^sup>2\<^sup>6\<^sup>0\<close>) and the
  function searched is negative at \<open>a\<close>, the search never returns: the test holds at every
  counter up to \<open>2\<^sup>5\<^sup>3\<close>, and there the counter stays.
\<close>

lemma bracketSearch_tiny_step:
  fixes N :: int and t :: real
  assumes "9 / 2 \<le> \<bar>real_of_int N * 2 powr of_int (- 50)\<bar>"
    "\<bar>real_of_int N * 2 powr of_int (- 50)\<bar> \<le> 15 / 2"
    "0 \<le> t" "t \<le> 2 powr (- 260)"
    "ff (Num (of_int N * 2 powr of_int (- 50))) < Num 0"
  shows "bracketSearch ff (Num (of_int N * 2 powr of_int (- 50))) (Num t) 1 = None"
proof -
  define a where "a = real_of_int N * 2 powr of_int (- 50)"
  have cand: "rnd (Num a - rnd (Num (real k) * Num t)) = Num a" if "k \<le> 2 ^ 53" for k :: nat
  proof -
    have "real k \<le> 2 ^ 53" using that by (metis of_nat_le_iff of_nat_numeral of_nat_power)
    then have "real k * t \<le> 2 ^ 53 * 2 powr (- 260)"
      using assms(3,4) by (intro mult_mono) simp_all
    also have "\<dots> \<le> 2 powr (- 200)"
      by (simp add: powr_minus powr_numeral divide_simps)
    finally have "\<bar>real k * t\<bar> \<le> 2 powr (- 200)" using assms(3) by simp
    from binary64_small [OF this] obtain y where
      y: "binary64 (real k * t) = Num y" "\<bar>y\<bar> \<le> 2 powr (- 199)" by blast
    have "(2::real) powr (- 199) \<le> 2 powr (- 60)" by (rule powr_mono) simp_all
    with y(2) have "\<bar>y\<bar> \<le> 2 powr (- 60)" by linarith
    from binary64_absorb [OF assms(1,2) this] have "binary64 (a - y) = Num a"
      by (simp only: a_def)
    with y(1) show ?thesis by simp
  qed
  show ?thesis
  proof (cases "bracketSearch ff (Num a) (Num t) 1")
    case None
    then show ?thesis by (simp only: a_def)
  next
    case (Some k)
    from bracketSearch_Some [OF Some] have "k \<le> 2 ^ 53 \<or> k = 1"
      and n: "\<not> ff (rnd (Num a - rnd (Num (real k) * Num t))) < Num 0" by auto
    then have "k \<le> 2 ^ 53" by auto
    from cand [OF this] n assms(5) show ?thesis by (simp add: a_def)
  qed
qed

text \<open>The logarithm of the square of the default volatility lies between \<open>- 7\<close> and \<open>- 5\<close>.\<close>

lemma ln_0036_bounds: "5 \<le> \<bar>ln (0.06 * 0.06 :: real)\<bar>" "\<bar>ln (0.06 * 0.06 :: real)\<bar> \<le> 7"
proof -
  have e3: "exp (1::real) \<le> 3" by (rule exp_le)
  have e25: "(5 / 2 :: real) \<le> exp 1"
    using exp_lower_Taylor_quadratic [of "1::real"] by simp
  have "exp (5::real) = exp 1 ^ 5" by (simp add: exp_of_nat_mult [symmetric])
  also have "\<dots> \<le> 3 ^ 5" using e3 by (intro power_mono) simp_all
  finally have "exp (5::real) \<le> 243" by simp
  then have "(0.06 * 0.06 :: real) \<le> exp (- 5)" by (simp add: exp_minus field_simps)
  then have "ln (0.06 * 0.06 :: real) \<le> ln (exp (- 5))"
    by (subst ln_le_cancel_iff) simp_all
  then have u: "ln (0.06 * 0.06 :: real) \<le> - 5" by (simp only: ln_exp)
  have "(5 / 2 :: real) ^ 7 \<le> exp 1 ^ 7" using e25 by (intro power_mono) simp_all
  also have "\<dots> = exp (7::real)" by (simp add: exp_of_nat_mult [symmetric])
  finally have "(5 / 2 :: real) ^ 7 \<le> exp 7" .
  moreover have "(610 :: real) \<le> (5 / 2) ^ 7" by (simp add: power_divide)
  ultimately have "(610 :: real) \<le> exp 7" by linarith
  then have "exp (- 7) \<le> (0.06 * 0.06 :: real)" by (simp add: exp_minus field_simps)
  then have l: "- 7 \<le> ln (0.06 * 0.06 :: real)" by (simp add: ln_ge_iff)
  from u l show "5 \<le> \<bar>ln (0.06 * 0.06 :: real)\<bar>" "\<bar>ln (0.06 * 0.06 :: real)\<bar> \<le> 7" by simp_all
qed


text \<open>
  One opponent of the same rating as the player and a draw: the expected score is \<open>1/2\<close>,
  the variance \<open>v\<close> is finite and positive, and \<open>DSum\<close>, hence \<open>\<Delta>\<close>, is zero.
\<close>

lemma g_Num: "\<exists>gg>0. g (Num d) = Num gg"
proof -
  have "0 < 1 + 3 * (d * d) / (pi * pi)" by (simp add: add_pos_nonneg)
  then have s: "0 < sqrt (1 + 3 * (d * d) / (pi * pi))" by simp
  then have "g (Num d) = Num (1 / sqrt (1 + 3 * (d * d) / (pi * pi)))"
    by (simp add: g_def PiSq_def Math_PI_def)
  moreover have "0 < 1 / sqrt (1 + 3 * (d * d) / (pi * pi))" using s by simp
  ultimately show ?thesis by blast
qed

lemma E_equal_ratings: "E (Num r) (Num r) (Num d) = Num (1 / 2)"
proof -
  from g_Num [of d] obtain gg where "g (Num d) = Num gg" by blast
  then show ?thesis by (simp add: E_def)
qed

lemma v_single_equal:
  "\<exists>vv>0. Num 1 / vSum \<lparr> rating = Num r, deviation = Num d, volatility = s \<rparr>
       [\<lparr> rating = Num r, deviation = Num d', volatility = s' \<rparr>] = Num vv"
proof -
  from g_Num [of d'] obtain gg where gg: "0 < gg" "g (Num d') = Num gg" by blast
  have "vSum \<lparr> rating = Num r, deviation = Num d, volatility = s \<rparr>
       [\<lparr> rating = Num r, deviation = Num d', volatility = s' \<rparr>] = Num (gg * gg / 4)"
    by (simp add: vSum_def E_equal_ratings gg(2) Let_def)
  moreover have "0 < gg * gg / 4" using gg(1) by simp
  ultimately have "Num 1 / vSum \<lparr> rating = Num r, deviation = Num d, volatility = s \<rparr>
       [\<lparr> rating = Num r, deviation = Num d', volatility = s' \<rparr>] = Num (1 / (gg * gg / 4))"
    using gg(1) by simp
  moreover have "0 < 1 / (gg * gg / 4)" using gg(1) by simp
  ultimately show ?thesis by blast
qed

lemma DSum_single_draw:
  "DSum \<lparr> rating = Num r, deviation = Num d, volatility = s \<rparr>
       [\<lparr> rating = Num r, deviation = Num d', volatility = s' \<rparr>] [Draw] = Num 0"
proof -
  from g_Num [of d'] obtain gg where gg: "g (Num d') = Num gg" by blast
  show ?thesis by (simp add: DSum_def E_equal_ratings gg Draw_def)
qed

lemma bracketB_tiny_Tau:
  fixes N :: int and t :: real
  assumes "9 / 2 \<le> \<bar>real_of_int N * 2 powr of_int (- 50)\<bar>"
    "\<bar>real_of_int N * 2 powr of_int (- 50)\<bar> \<le> 15 / 2"
    "0 < t" "t \<le> 2 powr (- 260)" "0 \<le> dsq" "0 < v"
  shows "bracketB (Num t) (Num t * Num t) (Num 0) (Num dsq) (Num v)
           (Num (of_int N * 2 powr of_int (- 50))) = None"
proof -
  define a where "a = real_of_int N * 2 powr of_int (- 50)"
  have t2: "t * t \<noteq> 0" using assms(3) by simp
  have s: "0 < dsq + v + exp a" using assms(5,6) by (simp add: add_nonneg_pos)
  have "exp a * (0 * 0 - dsq - v - exp a) = - (exp a * (dsq + v + exp a))"
    by (simp add: algebra_simps)
  moreover have "0 < exp a * (dsq + v + exp a)" using s by simp
  ultimately have n: "exp a * (0 * 0 - dsq - v - exp a) < 0" by linarith
  have "0 < (2 * (dsq + v + exp a)) * (2 * (dsq + v + exp a))" using s by simp
  with n have "exp a * (0 * 0 - dsq - v - exp a)
      / ((2 * (dsq + v + exp a)) * (2 * (dsq + v + exp a))) < 0"
    by (rule divide_neg_pos)
  then have "f (Num (t * t)) (Num 0) (Num dsq) (Num v) (Num a) (Num a) < Num 0"
    unfolding f_Num [OF assms(5,6) t2] by simp
  then have neg: "f (Num t * Num t) (Num 0) (Num dsq) (Num v) (Num a) (Num a) < Num 0" by simp
  have "bracketSearch (f (Num t * Num t) (Num 0) (Num dsq) (Num v) (Num a)) (Num a) (Num t) 1
          = None"
    unfolding a_def
    by (rule bracketSearch_tiny_step [OF assms(1,2) _ assms(4)])
       (use assms(3) neg in \<open>simp_all add: a_def\<close>)
  moreover have "\<not> Math_sq (Num 0) > Num dsq + Num v" using assms(5,6) by simp
  ultimately show ?thesis by (simp add: bracketB_def a_def)
qed

lemma tiny_Tau: "(0::real) < 1 / 10 ^ 100" "(1 / 10 ^ 100 :: real) \<le> 2 powr (- 260)"
  by (simp_all add: powr_minus powr_numeral divide_simps)

text \<open>
  C2, at the input \<open>Tau = 1e-100\<close>, a player with the default rating 1500, deviation 350
  and volatility 0.06, one opponent with the same values, and a draw. The input is valid:
  deviation, volatility and \<open>Tau\<close> are positive, and so is the variance \<open>v\<close>. Here
  \<open>\<Delta> = 0\<close>, so the bracket search runs; \<open>f(a)\<close> is negative, every candidate
  \<open>a - k * Tau\<close> is rounded to \<open>a\<close>, and the counter stops growing at \<open>2\<^sup>5\<^sup>3\<close>: the loop never
  reaches its exit condition and \<open>calculateRating\<close> does not return.
\<close>

theorem calculateRating_tiny_Tau_never_returns:
  "calculateRating (defaults \<lparr> Tau := Num (1 / 10 ^ 100) \<rparr>)
     (newRating defaults) [newRating defaults] [Draw] = None"
proof -
  define d :: real where "d = 350 / 173.7178"
  have p: "toGlicko2Scale (newRating defaults)
             = \<lparr> rating = Num 0, deviation = Num d, volatility = Num 0.06 \<rparr>"
    by (simp add: toGlicko2Scale_def newRating_def defaults_def d_def)
  from v_single_equal [of 0 d "Num 0.06" d "Num 0.06"] obtain vv where vv: "0 < vv"
    "Num 1 / vSum \<lparr> rating = Num 0, deviation = Num d, volatility = Num 0.06 \<rparr>
       [\<lparr> rating = Num 0, deviation = Num d, volatility = Num 0.06 \<rparr>] = Num vv"
    by blast
  have D: "DSum \<lparr> rating = Num 0, deviation = Num d, volatility = Num 0.06 \<rparr>
       [\<lparr> rating = Num 0, deviation = Num d, volatility = Num 0.06 \<rparr>] [Draw] = Num 0"
    by (rule DSum_single_draw)
  from binary64_5_7 [OF ln_0036_bounds] obtain N where
    a: "binary64 (ln (0.06 * 0.06)) = Num (of_int N * 2 powr of_int (- 50))"
    and N: "9 / 2 \<le> \<bar>real_of_int N * 2 powr of_int (- 50)\<bar>"
       "\<bar>real_of_int N * 2 powr of_int (- 50)\<bar> \<le> 15 / 2"
    by blast
  have a': "rnd (Math_log (Math_sq (Num 0.06))) = Num (of_int N * 2 powr of_int (- 50))"
    using a by simp
  have "bracketB (Num (1 / 10 ^ 100)) (Num (1 / 10 ^ 100) * Num (1 / 10 ^ 100)) (Num 0)
          (Num (d * d)) (Num vv) (Num (of_int N * 2 powr of_int (- 50))) = None"
    by (rule bracketB_tiny_Tau [OF N tiny_Tau _ vv(1)]) simp
  with vv(2) D a' show ?thesis
    by (simp add: calculateRating_def calculateRating_body_def Let_def p)
qed

section \<open>The divisor of \<open>f\<close> in the transpiled module\<close>

text \<open>
  C5, at the input: load the transpiled module, assign \<open>Tau = 1.5\<close>, call
  \<open>calculateRating\<close>. The bracket search steps by the new \<open>Tau\<close>, but \<open>f\<close> still divides
  by \<open>0.75 * 0.75\<close>, the square of the value at load time, where \<open>falseskill.ts\<close> divides
  by \<open>1.5 * 1.5\<close>; already at the first candidate of the search, \<open>x = a - Tau\<close>, the two
  values of \<open>f\<close> differ (here for \<open>\<Delta> = 0\<close>, \<open>\<phi>\<^sup>2 = 1\<close>, \<open>v = 1\<close>, \<open>a = 0\<close>).
\<close>

theorem transpiled_f_divides_by_load_time_TauSq:
  "Tau (exports (assign_Tau (Num 1.5) load_module)) = Num 1.5
   \<and> TauSq (assign_Tau (Num 1.5) load_module) = Num 0.5625
   \<and> calculateRating_js (assign_Tau (Num 1.5) load_module)
        = calculateRating_body (Num 1.5) (Num 0.5625)
   \<and> calculateRating (defaults \<lparr> Tau := Num 1.5 \<rparr>) = calculateRating_body (Num 1.5) (Num 2.25)
   \<and> f (Num 0.5625) (Num 0) (Num 1) (Num 1) (Num 0) (Num (- 1.5))
        \<noteq> f (Num 2.25) (Num 0) (Num 1) (Num 1) (Num 0) (Num (- 1.5))"
proof -
  have "f (Num 0.5625) (Num 0) (Num 1) (Num 1) (Num 0) (Num (- 1.5))
          \<noteq> f (Num 2.25) (Num 0) (Num 1) (Num 1) (Num 0) (Num (- 1.5))"
    by (simp add: f_Num)
  then show ?thesis
    by (simp add: assign_Tau_def load_module_def defaults_def calculateRating_js_def
        calculateRating_def)
qed

section \<open>A batch of matches\<close>

lemma updateRating_frame:
  "updateRating cfg p opps outs h = Some (r, h') \<Longrightarrow> a \<noteq> p \<Longrightarrow> h' a = h a"
  by (auto simp: updateRating_def copyRating_def split: option.splits sum.splits)

lemma updateRatings_frame:
  "updateRatings cfg ms h = Some (r, h') \<Longrightarrow> a \<notin> player ` set ms \<Longrightarrow> h' a = h a"
proof (induction ms arbitrary: h)
  case Nil
  then show ?case by simp
next
  case (Cons m ms)
  show ?case
  proof (cases "updateRating cfg (player m) (opponents m) (outcomes m) h")
    case None
    with Cons.prems show ?thesis by simp
  next
    case (Some res)
    obtain r1 h1 where res: "res = (r1, h1)" by (cases res)
    from Cons.prems(2) have a: "a \<noteq> player m" "a \<notin> player ` set ms" by auto
    from Some res a(1) have h1: "h1 a = h a" by (auto dest: updateRating_frame)
    show ?thesis
    proof (cases r1)
      case (Inl e)
      with Some res Cons.prems(1) h1 show ?thesis by simp
    next
      case (Inr u)
      with Some res Cons.prems(1) have "updateRatings cfg ms h1 = Some (r, h')" by simp
      from Cons.IH [OF this a(2)] h1 show ?thesis by simp
    qed
  qed
qed

lemma updateRatings_append:
  "updateRatings cfg (ms @ ms') h =
     (case updateRatings cfg ms h of
        None \<Rightarrow> None
      | Some (Inl e, h') \<Rightarrow> Some (Inl e, h')
      | Some (Inr u, h') \<Rightarrow> updateRatings cfg ms' h')"
  by (induction ms arbitrary: h) (auto split: option.splits sum.splits prod.splits)

text \<open>
  In the batch that \<open>deriveMatches\<close> returns without a filter, every match has the players
  of all other matches among its opponents.
\<close>

lemma deriveMatches_opponents:
  assumes "deriveMatches rankings None = Inr ms" "i < length ms" "j < length ms" "i \<noteq> j"
  shows "player (ms ! i) \<in> set (opponents (ms ! j))"
proof (cases "indexRankings None 0 rankings
                \<lparr> indexedPlayers = [], playersAlreadyIndexed = [], filteredPlayer = None \<rparr>")
  case (Inl e)
  with assms(1) show ?thesis by (simp add: deriveMatches_def)
next
  case (Inr st)
  let ?ips = "indexedPlayers st"
  from Inr assms(1) have ms: "ms = map (deriveMatch ?ips) [0..<length ?ips]"
    by (simp add: deriveMatches_def)
  from ms assms(2,3) have n: "i < length ?ips" "j < length ?ips" by simp_all
  with ms have "player (ms ! i) = IndexedPlayer.player (?ips ! i)"
    by (simp add: deriveMatch_def Let_def)
  moreover from ms n have "opponents (ms ! j)
      = map (\<lambda>k. IndexedPlayer.player (?ips ! k)) (filter (\<lambda>k. k \<noteq> j) [0..<length ?ips])"
    by (simp add: deriveMatch_def Let_def)
  moreover from n assms(4) have "i \<in> set (filter (\<lambda>k. k \<noteq> j) [0..<length ?ips])" by simp
  ultimately show ?thesis by (auto simp del: set_filter)
qed

text \<open>
  C4, amended: \<open>updateRatings\<close> applies \<open>updateRating\<close> to the matches in list order,
  each on the store left by the matches before it, and it stops at the first that throws.
  A match reads the original ratings of its opponents when none of them is the player of
  an earlier match of the batch; in a batch that \<open>deriveMatches\<close> returns, every match
  after the first has the players of all earlier matches among its opponents.
\<close>

theorem updateRatings_in_list_order:
  "updateRatings cfg (ms @ m # ms') h =
     (case updateRatings cfg ms h of
        None \<Rightarrow> None
      | Some (Inl e, h') \<Rightarrow> Some (Inl e, h')
      | Some (Inr u, h') \<Rightarrow>
          (case updateRating cfg (player m) (opponents m) (outcomes m) h' of
             None \<Rightarrow> None
           | Some (Inl e, h'') \<Rightarrow> Some (Inl e, h'')
           | Some (Inr u, h'') \<Rightarrow> updateRatings cfg ms' h''))
   \<and> (\<forall>r h'. updateRatings cfg ms h = Some (r, h')
                \<and> set (opponents m) \<inter> player ` set ms = {}
         \<longrightarrow> map h' (opponents m) = map h (opponents m))
   \<and> (\<forall>i j. deriveMatches rankings None = Inr batch \<and> i < j \<and> j < length batch
         \<longrightarrow> player (batch ! i) \<in> set (opponents (batch ! j)))"
proof (intro conjI)
  show "updateRatings cfg (ms @ m # ms') h =
     (case updateRatings cfg ms h of
        None \<Rightarrow> None
      | Some (Inl e, h') \<Rightarrow> Some (Inl e, h')
      | Some (Inr u, h') \<Rightarrow>
          (case updateRating cfg (player m) (opponents m) (outcomes m) h' of
             None \<Rightarrow> None
           | Some (Inl e, h'') \<Rightarrow> Some (Inl e, h'')
           | Some (Inr u, h'') \<Rightarrow> updateRatings cfg ms' h''))"
    by (simp add: updateRatings_append split: option.splits sum.splits prod.splits)
  show "\<forall>r h'. updateRatings cfg ms h = Some (r, h')
                \<and> set (opponents m) \<inter> player ` set ms = {}
         \<longrightarrow> map h' (opponents m) = map h (opponents m)"
  proof (intro allI impI, elim conjE)
    fix r h'
    assume run: "updateRatings cfg ms h = Some (r, h')"
      and disj: "set (opponents m) \<inter> player ` set ms = {}"
    have "h' a = h a" if "a \<in> set (opponents m)" for a
      using that disj by (intro updateRatings_frame [OF run]) auto
    then show "map h' (opponents m) = map h (opponents m)" by simp
  qed
  show "\<forall>i j. deriveMatches rankings None = Inr batch \<and> i < j \<and> j < length batch
         \<longrightarrow> player (batch ! i) \<in> set (opponents (batch ! j))"
    by (auto intro: deriveMatches_opponents)
qed

theorem updateRatings_in_list_order_witness:
  "updateRatings defaults [\<lparr> player = 0, opponents = [], outcomes = [] \<rparr>]
       (\<lambda>r. newRating defaults)
     = Some (Inr (), copyRating (calculateRatingDidNotCompete (newRating defaults)) 0
                       (\<lambda>r. newRating defaults))
   \<and> set (opponents \<lparr> player = 1, opponents = [2], outcomes = [Win] \<rparr>)
        \<inter> player ` set [\<lparr> player = 0, opponents = [], outcomes = [] \<rparr>] = {}
   \<and> map (copyRating (calculateRatingDidNotCompete (newRating defaults)) 0
             (\<lambda>r. newRating defaults))
        (opponents \<lparr> player = 1, opponents = [2], outcomes = [Win] \<rparr>)
     = map (\<lambda>r. newRating defaults) (opponents \<lparr> player = 1, opponents = [2], outcomes = [Win] \<rparr>)
   \<and> deriveMatches [[0], [1]] None
     = Inr [\<lparr> player = 0, opponents = [1], outcomes = [Win] \<rparr>,
            \<lparr> player = 1, opponents = [0], outcomes = [Loss] \<rparr>]
   \<and> player ([\<lparr> player = 0, opponents = [1], outcomes = [Win] \<rparr>,
               \<lparr> player = 1, opponents = [0], outcomes = [Loss] \<rparr>] ! 0)
       \<in> set (opponents ([\<lparr> player = 0, opponents = [1], outcomes = [Win] \<rparr>,
                           \<lparr> player = 1, opponents = [0], outcomes = [Loss] \<rparr>] ! 1))"
proof -
  have run: "updateRatings defaults [\<lparr> player = 0, opponents = [], outcomes = [] \<rparr>]
       (\<lambda>r. newRating defaults)
     = Some (Inr (), copyRating (calculateRatingDidNotCompete (newRating defaults)) 0
                       (\<lambda>r. newRating defaults))"
    by (simp add: updateRating_def calculateRating_def calculateRating_body_def)
  have disj: "set (opponents \<lparr> player = 1, opponents = [2], outcomes = [Win] \<rparr>)
        \<inter> player ` set [\<lparr> player = 0, opponents = [], outcomes = [] \<rparr>] = {}"
    by simp
  have batch: "deriveMatches [[0], [1]] None
     = Inr [\<lparr> player = 0, opponents = [1], outcomes = [Win] \<rparr>,
            \<lparr> player = 1, opponents = [0], outcomes = [Loss] \<rparr>]"
    by (simp add: deriveMatches_def indexPlayer_def deriveMatch_def outcomeAgainst_def upt_rec)
  have len: "(0 :: nat) < 1"
       "1 < length [\<lparr> player = 0, opponents = [1], outcomes = [Win] \<rparr>,
                    \<lparr> player = 1, opponents = [0 :: nat], outcomes = [Loss] \<rparr>]"
    by simp_all
  from updateRatings_in_list_order
         [of defaults "[\<lparr> player = 0, opponents = [], outcomes = [] \<rparr>]"
             "\<lparr> player = 1, opponents = [2], outcomes = [Win] \<rparr>" "[]" "\<lambda>r. newRating defaults"
             "[[0], [1]]"
             "[\<lparr> player = 0, opponents = [1], outcomes = [Win] \<rparr>,
               \<lparr> player = 1, opponents = [0], outcomes = [Loss] \<rparr>]"]
       run disj batch len
  show ?thesis by blast
qed

lemma inflated_deviation_greater:
  fixes c d s :: real
  assumes "0 < c" "0 \<le> d" "s \<noteq> 0"
  shows "d < c * sqrt ((d / c) * (d / c) + s * s)"
proof -
  define q where "q = d / c"
  have q: "0 \<le> q" using assms by (simp add: q_def)
  have "0 < s * s" using assms(3) by (auto simp: zero_less_mult_iff)
  then have "q * q < q * q + s * s" by simp
  then have "sqrt (q * q) < sqrt (q * q + s * s)"
    by (simp only: real_sqrt_less_iff)
  moreover have "sqrt (q * q) = q" using q by (simp only: real_sqrt_abs2 abs_of_nonneg)
  ultimately have "q < sqrt (q * q + s * s)" by (simp only:)
  then have "d / c < sqrt ((d / c) * (d / c) + s * s)" by (simp only: q_def)
  then have "d < sqrt ((d / c) * (d / c) + s * s) * c"
    using assms(1) by (simp only: pos_divide_less_eq)
  then show ?thesis by (simp only: mult.commute)
qed

lemma didNotCompete_new_deviation:
  "deviation (calculateRatingDidNotCompete (newRating defaults)) \<noteq> Num 350"
proof -
  have "350 < 173.7178 * sqrt ((350 / 173.7178) * (350 / 173.7178) + 0.06 * (0.06 :: real))"
    by (rule inflated_deviation_greater) simp_all
  then have
    "173.7178 * sqrt ((350 / 173.7178) * (350 / 173.7178) + 0.06 * (0.06 :: real)) \<noteq> 350"
    by simp
  moreover have "0 \<le> (350 / 173.7178) * (350 / 173.7178) + 0.06 * (0.06 :: real)" by simp
  ultimately show ?thesis
    by (simp only: calculateRatingDidNotCompete_def newRating_def defaults_def toGlicko2Scale_def
        toGlicko1Scale_def Let_def PlayerRating.simps Math_sq_Num divide_number.simps
        plus_number.simps times_number.simps Math_sqrt.simps number.inject)
       simp
qed

text \<open>
  C4, as stated: no opponent rating that a match of the batch observes is affected by the
  updates of earlier matches. In the batch of a match of player 0 without opponents,
  followed by a match of player 1 against player 0, the first update inflates the
  deviation of player 0 and the second match reads the inflated value.
\<close>

theorem updateRatings_later_match_observes_update:
  "\<not> observesOriginalOpponents defaults
       [\<lparr> player = 0, opponents = [], outcomes = [] \<rparr>,
        \<lparr> player = 1, opponents = [0], outcomes = [Win] \<rparr>]
       (\<lambda>r. newRating defaults)"
proof -
  have "updateRatings defaults [\<lparr> player = 0, opponents = [], outcomes = [] \<rparr>]
          (\<lambda>r. newRating defaults)
     = Some (Inr (), copyRating (calculateRatingDidNotCompete (newRating defaults)) 0
                       (\<lambda>r. newRating defaults))"
    by (simp add: updateRating_def calculateRating_def calculateRating_body_def)
  moreover have
    "deviation (copyRating (calculateRatingDidNotCompete (newRating defaults)) 0
                  (\<lambda>r. newRating defaults) 0)
      \<noteq> deviation (newRating defaults)"
    using didNotCompete_new_deviation by (simp add: copyRating_def newRating_def defaults_def)
  ultimately show ?thesis
    by (auto simp: observesOriginalOpponents_def upt_rec)
qed

section \<open>The median of the qualities\<close>

lemma quality_same_rating:
  "calculateMatchQualityG1 defaults \<lparr> rating = Num 1500, deviation = d, volatility = w \<rparr>
     \<lparr> rating = Num 1500, deviation = d', volatility = w' \<rparr> = Num 1"
  by (simp add: calculateMatchQualityG1_def defaults_def)

lemma quality_700_above:
  "calculateMatchQualityG1 defaults \<lparr> rating = Num 1500, deviation = d, volatility = w \<rparr>
     \<lparr> rating = Num 2200, deviation = d', volatility = w' \<rparr> = Num (2 / 11)"
  by (simp add: calculateMatchQualityG1_def defaults_def)

lemma quality_4900_above:
  "calculateMatchQualityG1 defaults \<lparr> rating = Num 1500, deviation = d, volatility = w \<rparr>
     \<lparr> rating = Num 6400, deviation = d', volatility = w' \<rparr> = Num (2 / 10000001)"
  by (simp add: calculateMatchQualityG1_def defaults_def)

lemma printed_order:
  "''0.18'' @ s < ''1''" "''1'' < ''1.99'' @ s'" "''0.18'' @ s < ''1.99'' @ s'"
  by (simp_all add: less_char_def)

lemma numericMedian_example: "numericMedian [1, 2 / 11, 2 / 11, 2 / 10000001] = 2 / 11"
  by (simp add: numericMedian_def)

text \<open>
  C9, at the input: a player rated 1500 and opponents rated 1500, 2200, 2200 and 6400,
  with the default configuration. The qualities are \<open>1\<close>, \<open>2/11\<close>, \<open>2/11\<close> and
  \<open>2/10000001\<close>; the last is below \<open>10\<^sup>-\<^sup>6\<close> and is printed in exponent notation,
  \<open>1.99...e-7\<close>, so the sort by strings puts it last. The array is then
  \<open>2/11, 2/11, 1, 2/10000001\<close> and \<open>med\<close> is \<open>(2/11 + 1) / 2 = 13/22\<close>, where the median of
  the numerically sorted list is \<open>2/11\<close>.
\<close>

theorem calculateMatchQuality_med_by_strings:
  assumes "toString (Num 1) = ''1''"
    and "toString (Num (2 / 11)) = ''0.18'' @ s"
    and "toString (Num (2 / 10000001)) = ''1.99'' @ s'"
  shows "\<exists>q. calculateMatchQuality defaults toString
            \<lparr> rating = Num 1500, deviation = Num 350, volatility = Num 0.06 \<rparr>
            [\<lparr> rating = Num 1500, deviation = Num 350, volatility = Num 0.06 \<rparr>,
             \<lparr> rating = Num 2200, deviation = Num 350, volatility = Num 0.06 \<rparr>,
             \<lparr> rating = Num 2200, deviation = Num 350, volatility = Num 0.06 \<rparr>,
             \<lparr> rating = Num 6400, deviation = Num 350, volatility = Num 0.06 \<rparr>] = Inr q
          \<and> qualities q = map Num [1, 2 / 11, 2 / 11, 2 / 10000001]
          \<and> med q = Num (13 / 22)
          \<and> numericMedian [1, 2 / 11, 2 / 11, 2 / 10000001] = 2 / 11"
proof -
  have le: "\<not> ''1'' \<le> ''0.18'' @ s" "\<not> ''1.99'' @ s' \<le> ''1''"
    "\<not> ''1.99'' @ s' \<le> ''0.18'' @ s"
    using printed_order(1) [of s] printed_order(2) [of s'] printed_order(3) [of s s']
    by (simp_all only: not_le)
  have ge: "''0.18'' @ s \<le> ''1''" "''1'' \<le> ''1.99'' @ s'" "''0.18'' @ s \<le> ''1.99'' @ s'"
    by (rule less_imp_le, rule printed_order)+
  have sorted: "defaultSort toString [Num 1, Num (2 / 11), Num (2 / 11), Num (2 / 10000001)]
      = [Num (2 / 11), Num (2 / 11), Num 1, Num (2 / 10000001)]"
    using le ge by (simp add: defaultSort_def assms del: append.simps)
  show ?thesis
    by (simp add: calculateMatchQuality_def qualityStep_def quality_same_rating
        quality_700_above quality_4900_above sorted elementAt_def numericMedian_example Let_def)
qed

theorem calculateMatchQuality_med_by_strings_witness:
  "\<exists>q. calculateMatchQuality defaults
            (\<lambda>x. if x = Num 1 then ''1''
                 else if x = Num (2 / 11) then ''0.18181818181818188''
                 else ''1.999999800217367e-7'')
            \<lparr> rating = Num 1500, deviation = Num 350, volatility = Num 0.06 \<rparr>
            [\<lparr> rating = Num 1500, deviation = Num 350, volatility = Num 0.06 \<rparr>,
             \<lparr> rating = Num 2200, deviation = Num 350, volatility = Num 0.06 \<rparr>,
             \<lparr> rating = Num 2200, deviation = Num 350, volatility = Num 0.06 \<rparr>,
             \<lparr> rating = Num 6400, deviation = Num 350, volatility = Num 0.06 \<rparr>] = Inr q
          \<and> qualities q = map Num [1, 2 / 11, 2 / 11, 2 / 10000001]
          \<and> med q = Num (13 / 22)
          \<and> numericMedian [1, 2 / 11, 2 / 11, 2 / 10000001] = 2 / 11"
  using calculateMatchQuality_med_by_strings
          [of "\<lambda>x. if x = Num 1 then ''1''
                    else if x = Num (2 / 11) then ''0.18181818181818188''
                    else ''1.999999800217367e-7''"
              "''181818181818188''" "''9999800217367e-7''"]
  by simp

end
